theory Spec2Isabelle
  imports Complex_Main
begin

section \<open>JavaScript numbers\<close>

text \<open>
  The component computes with JavaScript numbers, which are IEEE 754 doubles. They are
  modelled as the reals extended by the two infinities and \<open>NaN\<close> (the constructor
  initialises every bound to \<open>NaN\<close>); the two zeros are one. \<open>NaN\<close> propagates through
  arithmetic, every ordering comparison with \<open>NaN\<close> is false and \<open>!==\<close> with \<open>NaN\<close> is
  true.
\<close>

datatype number = Num real | NaN | Infinity | NegInfinity

text \<open>The difference of two numbers before it is rounded.\<close>

fun js_sub :: "number \<Rightarrow> number \<Rightarrow> number" where
  "js_sub (Num a) (Num b) = Num (a - b)"
| "js_sub NaN _ = NaN"
| "js_sub _ NaN = NaN"
| "js_sub Infinity Infinity = NaN"
| "js_sub NegInfinity NegInfinity = NaN"
| "js_sub Infinity _ = Infinity"
| "js_sub NegInfinity _ = NegInfinity"
| "js_sub (Num a) Infinity = NegInfinity"
| "js_sub (Num a) NegInfinity = Infinity"

fun Math_abs :: "number \<Rightarrow> number" where
  "Math_abs (Num a) = Num \<bar>a\<bar>"
| "Math_abs NaN = NaN"
| "Math_abs Infinity = Infinity"
| "Math_abs NegInfinity = Infinity"

fun js_gt :: "number \<Rightarrow> number \<Rightarrow> bool" where
  "js_gt (Num a) (Num b) = (a > b)"
| "js_gt NaN _ = False"
| "js_gt _ NaN = False"
| "js_gt Infinity Infinity = False"
| "js_gt Infinity _ = True"
| "js_gt NegInfinity _ = False"
| "js_gt (Num a) Infinity = False"
| "js_gt (Num a) NegInfinity = True"

fun strict_neq :: "number \<Rightarrow> number \<Rightarrow> bool" where
  "strict_neq (Num a) (Num b) = (a \<noteq> b)"
| "strict_neq Infinity Infinity = False"
| "strict_neq NegInfinity NegInfinity = False"
| "strict_neq _ _ = True"

text \<open>
  Rounding to the nearest double, ties to even. A double is \<open>m * 2 ^ e\<close> with
  \<open>\<bar>m\<bar> < 2 ^ 53\<close> and \<open>-1074 \<le> e \<le> 971\<close>. \<open>double_exponent x\<close> is the binary exponent
  \<open>e\<close> of \<open>x\<close>, found by search from the largest one (1023) down to the one the
  subnormal numbers share (-1022); the value is rounded to a multiple of
  \<open>2 ^ (e - 52)\<close>, the weight of its last binary digit, and a result of magnitude
  \<open>2 ^ 1024\<close> or more is an infinity.
\<close>

fun exponent_from :: "nat \<Rightarrow> int \<Rightarrow> real \<Rightarrow> int" where
  "exponent_from 0 e x = e"
| "exponent_from (Suc n) e x = (if 2 powi e \<le> x then e else exponent_from n (e - 1) x)"

definition double_exponent :: "real \<Rightarrow> int" where
  "double_exponent x = exponent_from 2045 1023 \<bar>x\<bar>"

definition round_half_even :: "real \<Rightarrow> int" where
  "round_half_even x =
     (let f = \<lfloor>x\<rfloor>; r = x - of_int f
      in if r < 1 / 2 then f
         else if 1 / 2 < r then f + 1
         else if even f then f else f + 1)"

definition round_to_double :: "real \<Rightarrow> number" where
  "round_to_double x =
     (let q = 2 powi (double_exponent x - 52);
          y = of_int (round_half_even (x / q)) * q
      in if 2 powi 1024 \<le> \<bar>y\<bar> then (if 0 < x then Infinity else NegInfinity)
         else Num y)"

text \<open>The operator \<open>-\<close>: the difference, rounded.\<close>

definition js_minus :: "number \<Rightarrow> number \<Rightarrow> number" where
  "js_minus a b = (case js_sub a b of Num x \<Rightarrow> round_to_double x | y \<Rightarrow> y)"


section \<open>The waveform engine as the component sees it\<close>

text \<open>\<open>config/waveConfig.js\<close>: the options the engine is created with.\<close>

record wave_params =
  barWidth :: number
  barGap :: number
  cursorWidth :: number
  waveColor :: string
  progressColor :: string
  skipLength :: number

definition waveConfig :: wave_params where
  "waveConfig =
     \<lparr> barWidth = Num 2,
       barGap = Num 2,
       cursorWidth = Num 0,
       waveColor = ''#525353'',
       progressColor = ''#232526'',
       skipLength = Num 5 \<rparr>"

record region =
  region_start :: number
  region_end :: number
  color :: string

datatype event_name = EvReady | EvRegionCreated | EvRegionUpdated | EvRegionUpdateEnd

text \<open>Every method the component calls on the engine (or on a region of it).\<close>

datatype engine_call =
    On event_name
  | LoadBlob
  | GetDuration
  | GetCurrentTime
  | AddRegion region
  | ClearRegions
  | Play "number option"
  | Pause
  | Stop
  | SkipForward
  | SkipBackward
  | Skip number
  | RegionPlay region
  | Destroy

text \<open>
  The engine is a third-party object. The model keeps what the component can observe or
  cause: the options it was created with, the two readings the component asks for
  (\<open>getDuration()\<close>, \<open>getCurrentTime()\<close>), the regions it holds, and the sequence of
  calls it has received. How the engine moves its playhead is not modelled: the
  readings change only through \<open>engine_clock\<close>, which stands for the engine's own
  progress between two handlers.
\<close>

record engine =
  params :: wave_params
  duration :: number
  currentTime :: number
  regions :: "region list"
  calls :: "engine_call list"

definition invoke :: "engine_call \<Rightarrow> engine \<Rightarrow> engine" where
  "invoke c e = e\<lparr>calls := calls e @ [c]\<rparr>"

definition WaveSurfer_create :: "wave_params \<Rightarrow> engine" where
  "WaveSurfer_create cfg =
     \<lparr> params = cfg, duration = Num 0, currentTime = Num 0, regions = [], calls = [] \<rparr>"

definition on :: "event_name \<Rightarrow> engine \<Rightarrow> engine" where
  "on ev e = invoke (On ev) e"

definition loadBlob :: "engine \<Rightarrow> engine" where
  "loadBlob e = invoke LoadBlob e"

definition getDuration :: "engine \<Rightarrow> number \<times> engine" where
  "getDuration e = (duration e, invoke GetDuration e)"

definition getCurrentTime :: "engine \<Rightarrow> number \<times> engine" where
  "getCurrentTime e = (currentTime e, invoke GetCurrentTime e)"

definition addRegion :: "region \<Rightarrow> engine \<Rightarrow> region \<times> engine" where
  "addRegion r e = (r, (invoke (AddRegion r) e)\<lparr>regions := regions e @ [r]\<rparr>)"

definition clearRegions :: "engine \<Rightarrow> engine" where
  "clearRegions e = (invoke ClearRegions e)\<lparr>regions := []\<rparr>"

definition play :: "number option \<Rightarrow> engine \<Rightarrow> engine" where
  "play from e = invoke (Play from) e"

definition pause :: "engine \<Rightarrow> engine" where
  "pause e = invoke Pause e"

definition stop :: "engine \<Rightarrow> engine" where
  "stop e = invoke Stop e"

definition skipForward :: "engine \<Rightarrow> engine" where
  "skipForward e = invoke SkipForward e"

definition skipBackward :: "engine \<Rightarrow> engine" where
  "skipBackward e = invoke SkipBackward e"

definition skip :: "number \<Rightarrow> engine \<Rightarrow> engine" where
  "skip offset e = invoke (Skip offset) e"

definition region_play :: "region \<Rightarrow> engine \<Rightarrow> engine" where
  "region_play r e = invoke (RegionPlay r) e"

definition destroy :: "engine \<Rightarrow> engine" where
  "destroy e = invoke Destroy e"

definition engine_clock :: "number \<Rightarrow> engine \<Rightarrow> engine" where
  "engine_clock t e = e\<lparr>currentTime := t\<rparr>"


section \<open>The component \<open>AudioPlayer\<close>\<close>

text \<open>
  The component's state holds a reference to the engine, not the engine: \<open>EngineRef\<close>
  is that reference, and the one engine object lives beside the state in \<open>world\<close>,
  together with the notices shown by \<open>alert\<close>.
\<close>

datatype handle = EngineRef

record State =
  isPlaying :: bool
  cutStart :: number
  originalCutStart :: number
  cutEnd :: number
  originalCutEnd :: number
  waveSurfer :: "handle option"
  wasRegionChanged :: bool

record world =
  state :: State
  engine :: engine
  alerts :: "string list"

definition REGION_COLOR :: string where
  "REGION_COLOR = ''rgba(0, 123, 255, 0.48)''"

definition constructor :: State where
  "constructor =
     \<lparr> isPlaying = False,
       cutStart = NaN,
       originalCutStart = NaN,
       cutEnd = NaN,
       originalCutEnd = NaN,
       waveSurfer = None,
       wasRegionChanged = False \<rparr>"

definition componentDidMount :: world where
  "componentDidMount =
     (let e0 = WaveSurfer_create waveConfig;
          e1 = on EvReady e0;
          e2 = loadBlob e1
      in \<lparr> state = constructor, engine = e2, alerts = [] \<rparr>)"

definition componentWillUnmount :: "world \<Rightarrow> world" where
  "componentWillUnmount w =
     (case waveSurfer (state w) of
        None \<Rightarrow> w
      | Some ws \<Rightarrow> w\<lparr>engine := destroy (engine w)\<rparr>)"

text \<open>
  In \<open>onWaveSurferReady\<close> the difference \<open>duration - 20\<close> is taken unrounded: for a
  duration that is a double with \<open>40 < d < 2 ^ 55\<close> rounding does not change it
  (\<open>representable_minus_20\<close> below).
\<close>

definition onWaveSurferReady :: "handle \<Rightarrow> world \<Rightarrow> world" where
  "onWaveSurferReady ws w =
     (let e1 = on EvRegionCreated (engine w);
          e2 = on EvRegionUpdated e1;
          e3 = on EvRegionUpdateEnd e2;
          (d, e4) = getDuration e3;
          (cs, ce) = (if js_gt d (Num 40) then (Num 20, js_sub d (Num 20)) else (Num 0, d));
          (r, e5) = addRegion \<lparr> region_start = cs, region_end = ce, color = REGION_COLOR \<rparr> e4
      in w\<lparr> engine := e5,
            state := (state w)\<lparr> waveSurfer := Some ws,
                                cutStart := cs,
                                cutEnd := ce,
                                originalCutStart := cs,
                                originalCutEnd := ce \<rparr> \<rparr>)"

definition recreateRegion :: "engine \<Rightarrow> number \<Rightarrow> number \<Rightarrow> region \<times> engine" where
  "recreateRegion e startTime endTime =
     (let e1 = clearRegions e
      in addRegion \<lparr> region_start = startTime, region_end = endTime, color = REGION_COLOR \<rparr> e1)"

text \<open>
  The two drag handlers receive the bounds of the dragged region (\<open>params.start\<close>,
  \<open>params.end\<close>). \<open>onCropRegionUpdated\<close> also blanks the \<open>title\<close> attribute of the
  region's DOM element, and \<open>onCropRegionCreated\<close> does nothing else; the DOM is not
  part of the state modelled here, so \<open>onCropRegionCreated\<close> has no counterpart.
\<close>

definition onCropRegionUpdated :: "number \<Rightarrow> number \<Rightarrow> world \<Rightarrow> world" where
  "onCropRegionUpdated start end' w =
     (case waveSurfer (state w) of
        None \<Rightarrow> w
      | Some ws \<Rightarrow>
          if js_gt (Math_abs (js_minus start end')) (Num 0.25) then w
          else
            let (newRegion, e1) = recreateRegion (engine w) (cutStart (state w)) (cutEnd (state w));
                e2 = (if isPlaying (state w) then region_play newRegion e1 else e1)
            in w\<lparr> engine := e2, state := (state w)\<lparr> waveSurfer := Some ws \<rparr> \<rparr>)"

definition onCropRegionUpdateEnd :: "number \<Rightarrow> number \<Rightarrow> world \<Rightarrow> world" where
  "onCropRegionUpdateEnd start end' w =
     (case waveSurfer (state w) of
        None \<Rightarrow> w
      | Some ws \<Rightarrow>
          let playFrom0 = Num 0;
              (playFrom1, s1) =
                (if strict_neq end' (cutEnd (state w))
                 then (end', (state w)\<lparr> cutEnd := end' \<rparr>)
                 else (playFrom0, state w));
              (playFrom, s2) =
                (if strict_neq start (cutStart (state w))
                 then (start, s1\<lparr> cutStart := start \<rparr>)
                 else (playFrom1, s1));
              e1 = play (Some playFrom) (engine w)
          in w\<lparr> engine := e1,
                state := s2\<lparr> isPlaying := True,
                            wasRegionChanged := strict_neq playFrom (Num 0) \<rparr> \<rparr>)"

definition handleClickTogglePlay :: "world \<Rightarrow> world" where
  "handleClickTogglePlay w =
     (case waveSurfer (state w) of
        None \<Rightarrow> w
      | Some ws \<Rightarrow>
          let e1 = (if isPlaying (state w) then pause (engine w) else play None (engine w))
          in w\<lparr> engine := e1, state := (state w)\<lparr> isPlaying := \<not> isPlaying (state w) \<rparr> \<rparr>)"

definition handleClickSkip :: "bool \<Rightarrow> world \<Rightarrow> world" where
  "handleClickSkip skipForwards w =
     (case waveSurfer (state w) of
        None \<Rightarrow> w
      | Some ws \<Rightarrow>
          if skipForwards then w\<lparr> engine := skipForward (engine w) \<rparr>
          else w\<lparr> engine := skipBackward (engine w) \<rparr>)"

definition handleClickJump :: "bool \<Rightarrow> world \<Rightarrow> world" where
  "handleClickJump jumpToEnd w =
     (case waveSurfer (state w) of
        None \<Rightarrow> w
      | Some ws \<Rightarrow>
          if jumpToEnd then
            let (d, e1) = getDuration (engine w);
                (current, e2) = getCurrentTime e1;
                e3 = skip (js_minus (js_minus d current) (Num 5)) e2;
                e4 = pause e3;
                e5 = skipForward e4
            in w\<lparr> engine := e5, state := (state w)\<lparr> isPlaying := False \<rparr> \<rparr>
          else
            let e1 = stop (engine w);
                e2 = (if isPlaying (state w) then play None e1 else e1)
            in w\<lparr> engine := e2 \<rparr>)"

definition handleClickCut :: "world \<Rightarrow> world" where
  "handleClickCut w = w\<lparr> alerts := alerts w @ [''Not yet implemented :(''] \<rparr>"

definition handleClickCancel :: "world \<Rightarrow> world" where
  "handleClickCancel w =
     (case waveSurfer (state w) of
        None \<Rightarrow> w
      | Some ws \<Rightarrow>
          let (r, e1) = recreateRegion (engine w) (originalCutStart (state w)) (originalCutEnd (state w));
              e2 = stop e1
          in w\<lparr> engine := e2,
                state := (state w)\<lparr> waveSurfer := Some ws,
                                    isPlaying := False,
                                    cutStart := originalCutStart (state w),
                                    cutEnd := originalCutEnd (state w),
                                    wasRegionChanged := False \<rparr> \<rparr>)"


section \<open>Sessions: what can happen after the engine is ready\<close>

text \<open>
  After readiness the component reacts to the two drag events of the engine and to the
  five buttons; between two reactions the engine's playhead may have moved.
\<close>

datatype event =
    RegionUpdated number number
  | RegionUpdateEnd number number
  | ClickTogglePlay
  | ClickSkip bool
  | ClickJump bool
  | ClickCut
  | ClickCancel
  | EngineClock number

fun step :: "event \<Rightarrow> world \<Rightarrow> world" where
  "step (RegionUpdated a b) w = onCropRegionUpdated a b w"
| "step (RegionUpdateEnd a b) w = onCropRegionUpdateEnd a b w"
| "step ClickTogglePlay w = handleClickTogglePlay w"
| "step (ClickSkip f) w = handleClickSkip f w"
| "step (ClickJump f) w = handleClickJump f w"
| "step ClickCut w = handleClickCut w"
| "step ClickCancel w = handleClickCancel w"
| "step (EngineClock t) w = w\<lparr> engine := engine_clock t (engine w) \<rparr>"

fun run :: "event list \<Rightarrow> world \<Rightarrow> world" where
  "run [] w = w"
| "run (ev # evs) w = run evs (step ev w)"

text \<open>
  A session starts when the engine, created by \<open>componentDidMount\<close>, has decoded a
  track of duration \<open>d\<close> and fires \<open>ready\<close>; the listener registered there passes the
  engine itself to \<open>onWaveSurferReady\<close>.
\<close>

definition engine_decoded :: "number \<Rightarrow> world \<Rightarrow> world" where
  "engine_decoded d w = w\<lparr> engine := (engine w)\<lparr> duration := d \<rparr> \<rparr>"

definition session_start :: "number \<Rightarrow> world" where
  "session_start d = onWaveSurferReady EngineRef (engine_decoded d componentDidMount)"

text \<open>
  The playback anchor \<open>playFrom\<close> that \<open>onCropRegionUpdateEnd\<close> resolves from the
  delivered bounds and the committed ones: the start-edge test is the later assignment.
\<close>

definition resolved_anchor :: "number \<Rightarrow> number \<Rightarrow> State \<Rightarrow> number" where
  "resolved_anchor start end' s =
     (if strict_neq start (cutStart s) then start
      else if strict_neq end' (cutEnd s) then end'
      else Num 0)"





section \<open>Rounding\<close>

lemma exponent_from_eq:
  "2 powi k \<le> x \<Longrightarrow> x < 2 powi (k + 1) \<Longrightarrow> k \<le> e \<Longrightarrow> e - int n \<le> k \<Longrightarrow>
   exponent_from n e x = k"
proof (induction n arbitrary: e)
  case 0
  then show ?case by simp
next
  case (Suc n)
  show ?case
  proof (cases "2 powi e \<le> x")
    case True
    with Suc.prems(2) have "(2::real) powi e < 2 powi (k + 1)" by simp
    then have "e < k + 1"
      by (metis not_less one_le_numeral power_int_increasing)
    with Suc.prems(3) True show ?thesis by simp
  next
    case False
    with Suc.prems(1) have "(2::real) powi k < 2 powi e" by simp
    then have "k < e"
      by (metis not_less one_le_numeral power_int_increasing)
    with Suc.prems False show ?thesis by (simp add: Suc.IH)
  qed
qed

lemma double_exponent_eq:
  "2 powi k \<le> \<bar>x\<bar> \<Longrightarrow> \<bar>x\<bar> < 2 powi (k + 1) \<Longrightarrow> - 1022 \<le> k \<Longrightarrow> k \<le> 1023 \<Longrightarrow>
   double_exponent x = k"
  unfolding double_exponent_def by (rule exponent_from_eq) simp_all

lemma two_powi_le_iff: "(2::real) powi a \<le> 2 powi b \<longleftrightarrow> a \<le> b"
proof
  assume "(2::real) powi a \<le> 2 powi b"
  then show "a \<le> b"
    using power_int_strict_increasing [of b a "2::real"] by (cases "a \<le> b") auto
next
  assume "a \<le> b"
  then show "(2::real) powi a \<le> 2 powi b"
    by (simp add: power_int_increasing)
qed

lemma two_powi_less_iff: "(2::real) powi a < 2 powi b \<longleftrightarrow> a < b"
  using two_powi_le_iff [of b a] by (simp add: not_le [symmetric])

lemma two_powi_nonneg: "0 \<le> k \<Longrightarrow> (2::real) powi k = of_int (2 ^ nat k)"
  by (simp add: power_int_def)

lemma exponent_from_bounds:
  "e - int n \<le> exponent_from n e x \<and> exponent_from n e x \<le> e"
proof (induction n arbitrary: e)
  case 0
  show ?case by simp
next
  case (Suc n)
  from Suc [of "e - 1"] show ?case by auto
qed

lemma exponent_from_lower:
  "exponent_from n e x = e - int n \<or> 2 powi (exponent_from n e x) \<le> x"
proof (induction n arbitrary: e)
  case 0
  show ?case by simp
next
  case (Suc n)
  from Suc [of "e - 1"] show ?case by auto
qed

lemma exponent_from_upper:
  "x < 2 powi (e + 1) \<Longrightarrow> x < 2 powi (exponent_from n e x + 1)"
proof (induction n arbitrary: e)
  case 0
  then show ?case by simp
next
  case (Suc n)
  show ?case
  proof (cases "2 powi e \<le> x")
    case True
    with Suc.prems show ?thesis by simp
  next
    case False
    then have "x < 2 powi (e - 1 + 1)" by simp
    then have "x < 2 powi (exponent_from n (e - 1) x + 1)" by (rule Suc.IH)
    with False show ?thesis by simp
  qed
qed

lemma double_exponent_bounds: "- 1022 \<le> double_exponent x \<and> double_exponent x \<le> 1023"
  using exponent_from_bounds [of 1023 2045 "\<bar>x\<bar>"] by (simp add: double_exponent_def)

lemma double_exponent_lower:
  "double_exponent x = - 1022 \<or> 2 powi (double_exponent x) \<le> \<bar>x\<bar>"
  using exponent_from_lower [of 2045 1023 "\<bar>x\<bar>"] by (simp add: double_exponent_def)

lemma double_exponent_upper:
  "\<bar>x\<bar> < 2 powi 1024 \<Longrightarrow> \<bar>x\<bar> < 2 powi (double_exponent x + 1)"
  using exponent_from_upper [of "\<bar>x\<bar>" 1023 2045] by (simp add: double_exponent_def)

lemma double_exponent_le:
  assumes "\<bar>x\<bar> < 2 powi (k + 1)" and "- 1022 \<le> k"
  shows "double_exponent x \<le> k"
proof (rule ccontr)
  assume "\<not> double_exponent x \<le> k"
  then have gt: "k + 1 \<le> double_exponent x" by simp
  with assms(2) have "double_exponent x \<noteq> - 1022" by simp
  with double_exponent_lower [of x] have "2 powi (double_exponent x) \<le> \<bar>x\<bar>" by simp
  moreover from gt have "(2::real) powi (k + 1) \<le> 2 powi (double_exponent x)"
    by (simp add: two_powi_le_iff)
  ultimately show False using assms(1) by simp
qed

lemma double_exponent_ge:
  assumes "2 powi k \<le> \<bar>x\<bar>" and "\<bar>x\<bar> < 2 powi 1024"
  shows "k \<le> double_exponent x"
proof -
  from assms(2) have "\<bar>x\<bar> < 2 powi (double_exponent x + 1)" by (rule double_exponent_upper)
  with assms(1) have "(2::real) powi k < 2 powi (double_exponent x + 1)" by simp
  then show ?thesis by (simp add: two_powi_less_iff)
qed

lemma round_half_even_of_int: "round_half_even (of_int n) = n"
  by (simp add: round_half_even_def)

lemma round_half_even_le: "x \<le> of_int n \<Longrightarrow> round_half_even x \<le> n"
  unfolding round_half_even_def Let_def
  by (auto simp: le_floor_iff floor_le_iff split: if_splits)

lemma round_half_even_ge: "of_int n \<le> x \<Longrightarrow> n \<le> round_half_even x"
proof -
  assume "of_int n \<le> x"
  then have "n \<le> \<lfloor>x\<rfloor>" by (simp add: le_floor_iff)
  moreover have "\<lfloor>x\<rfloor> \<le> round_half_even x"
    by (simp add: round_half_even_def Let_def)
  ultimately show ?thesis by simp
qed

lemma small_rounds_small:
  assumes "\<bar>x\<bar> \<le> 1 / 4"
  shows "\<exists>y. round_to_double x = Num y \<and> \<bar>y\<bar> \<le> 1 / 4"
proof -
  define e where "e = double_exponent x"
  define q :: real where "q = 2 powi (e - 52)"
  define m where "m = round_half_even (x / q)"
  define N :: int where "N = 2 ^ nat (50 - e)"
  have e_le: "e \<le> - 2"
  proof (cases "e = - 1022")
    case True
    then show ?thesis by simp
  next
    case False
    with double_exponent_lower [of x] have "2 powi e \<le> \<bar>x\<bar>" by (simp add: e_def)
    with assms have "(2::real) powi e \<le> 2 powi (- 2)" by simp
    then show ?thesis by (simp only: two_powi_le_iff)
  qed
  have q_pos: "0 < q" by (simp add: q_def)
  have "(2::real) powi (50 - e) = of_int N"
    using e_le by (simp add: N_def two_powi_nonneg)
  then have "of_int N * q = 2 powi (50 - e) * 2 powi (e - 52)"
    by (simp only: q_def)
  also have "\<dots> = 2 powi (- 2)"
    by (simp flip: power_int_add)
  finally have Nq: "of_int N * q = 1 / 4" by simp
  have "x \<le> of_int N * q" "- (of_int N * q) \<le> x"
    using assms Nq by simp_all
  then have "x / q \<le> of_int N" "of_int (- N) \<le> x / q"
    using q_pos by (simp_all add: field_simps)
  then have "m \<le> N" "- N \<le> m"
    unfolding m_def by (simp_all only: round_half_even_le round_half_even_ge)
  then have "\<bar>of_int m :: real\<bar> \<le> of_int N" by linarith
  then have "\<bar>of_int m * q\<bar> \<le> of_int N * q"
    using q_pos by (simp add: abs_mult)
  then have y: "\<bar>of_int m * q\<bar> \<le> 1 / 4" using Nq by simp
  have "(1 / 4 :: real) < 2 powi 1024" by simp
  with y have "\<not> 2 powi 1024 \<le> \<bar>of_int m * q\<bar>" by linarith
  then have "round_to_double x = Num (of_int m * q)"
    by (simp add: round_to_double_def Let_def m_def q_def e_def)
  with y show ?thesis by blast
qed

lemma representable_minus_20:
  assumes rep: "round_to_double d = Num d" and lo: "40 < d" and hi: "d < 2 ^ 55"
  shows "round_to_double (d - 20) = Num (d - 20)"
proof -
  define ed where "ed = double_exponent d"
  define e where "e = double_exponent (d - 20)"
  define md where "md = round_half_even (d / 2 powi (ed - 52))"
  have d_small: "\<bar>d\<bar> < 2 powi 1024" "\<bar>d - 20\<bar> < 2 powi 1024"
    using lo hi by simp_all
  from rep have d_eq: "d = of_int md * 2 powi (ed - 52)"
    by (simp add: round_to_double_def Let_def md_def ed_def split: if_splits)
  have "2 powi 5 \<le> \<bar>d\<bar>" using lo by simp
  then have ed_ge: "5 \<le> ed" unfolding ed_def using d_small(1) by (rule double_exponent_ge)
  have "\<bar>d\<bar> < 2 powi (54 + 1)" using lo hi by simp
  then have ed_le: "ed \<le> 54" unfolding ed_def by (rule double_exponent_le) simp
  have "\<bar>d - 20\<bar> < \<bar>d\<bar>" using lo by simp
  also have "\<bar>d\<bar> < 2 powi (ed + 1)" unfolding ed_def using d_small(1) by (rule double_exponent_upper)
  finally have "e \<le> ed" unfolding e_def
    using ed_ge by (intro double_exponent_le) simp_all
  have "2 powi 4 \<le> \<bar>d - 20\<bar>" using lo by simp
  then have e_ge: "4 \<le> e" unfolding e_def using d_small(2) by (rule double_exponent_ge)
  define K :: int where "K = md * 2 ^ nat (ed - e) - 5 * 2 ^ nat (54 - e)"
  have q_pos: "(0::real) < 2 powi (e - 52)" by simp
  have "(2::real) powi (ed - 52) = 2 powi (ed - e) * 2 powi (e - 52)"
    by (simp flip: power_int_add)
  moreover have "(20::real) = 5 * (2 powi (54 - e) * 2 powi (e - 52))"
    by (simp flip: power_int_add)
  ultimately have "d - 20 = (of_int md * 2 powi (ed - e) - 5 * 2 powi (54 - e)) * 2 powi (e - 52)"
    using d_eq by (simp add: algebra_simps)
  also have "\<dots> = of_int K * 2 powi (e - 52)"
    using \<open>e \<le> ed\<close> ed_le by (simp add: K_def two_powi_nonneg)
  finally have x_eq: "d - 20 = of_int K * 2 powi (e - 52)" .
  then have "(d - 20) / 2 powi (e - 52) = of_int K"
    using q_pos by (simp add: field_simps)
  then have "round_half_even ((d - 20) / 2 powi (e - 52)) = K"
    by (simp only: round_half_even_of_int)
  then have r: "round_half_even ((d - 20) / 2 powi (double_exponent (d - 20) - 52)) = K"
    by (simp only: e_def)
  have y: "of_int K * 2 powi (double_exponent (d - 20) - 52) = d - 20"
    using x_eq by (simp only: e_def)
  have "\<not> 2 powi 1024 \<le> \<bar>d - 20\<bar>" using d_small(2) by simp
  then show ?thesis
    unfolding round_to_double_def Let_def r y by simp
qed

lemma js_minus_finite: "js_minus (Num a) (Num b) = round_to_double (a - b)"
  by (simp add: js_minus_def)

lemma guard_collision:
  assumes "\<bar>a - b\<bar> \<le> 0.25"
  shows "\<not> js_gt (Math_abs (js_minus (Num a) (Num b))) (Num 0.25)"
proof -
  from assms have "\<bar>a - b\<bar> \<le> 1 / 4" by simp
  then obtain y where "round_to_double (a - b) = Num y" and "\<bar>y\<bar> \<le> 1 / 4"
    using small_rounds_small by blast
  then show ?thesis by (simp add: js_minus_finite)
qed

text \<open>The roundings met in the examples below.\<close>

lemma round_to_double_50: "round_to_double 50 = Num 50"
proof -
  have "double_exponent 50 = 5" by (rule double_exponent_eq) simp_all
  then show ?thesis by (simp add: round_to_double_def round_half_even_def Let_def)
qed

lemma round_to_double_45: "round_to_double 45 = Num 45"
proof -
  have "double_exponent 45 = 5" by (rule double_exponent_eq) simp_all
  then show ?thesis by (simp add: round_to_double_def round_half_even_def Let_def)
qed

lemma round_to_double_near_59_9:
  "round_to_double (60 - 3602879701896397 / 2 ^ 55) = Num (8430175552484147 / 2 ^ 47)"
proof -
  have "double_exponent (60 - 3602879701896397 / 2 ^ 55) = 5"
    by (rule double_exponent_eq) simp_all
  then show ?thesis by (simp add: round_to_double_def round_half_even_def Let_def)
qed

lemma round_to_double_near_54_9:
  "round_to_double (8430175552484147 / 2 ^ 47 - 5) = Num (7726488110707507 / 2 ^ 47)"
proof -
  have "double_exponent (8430175552484147 / 2 ^ 47 - 5) = 5"
    by (rule double_exponent_eq) simp_all
  then show ?thesis by (simp add: round_to_double_def round_half_even_def Let_def)
qed

lemma jump_offset_60_10: "js_minus (js_minus (Num 60) (Num 10)) (Num 5) = Num 45"
  using round_to_double_50 round_to_double_45 by (simp add: js_minus_finite)

lemma jump_offset_60_near_0_1:
  "js_minus (js_minus (Num 60) (Num (3602879701896397 / 2 ^ 55))) (Num 5)
     = Num (7726488110707507 / 2 ^ 47)"
proof -
  have "js_minus (Num 60) (Num (3602879701896397 / 2 ^ 55)) = Num (8430175552484147 / 2 ^ 47)"
    by (simp only: js_minus_finite round_to_double_near_59_9)
  then show ?thesis
    by (simp only: js_minus_finite round_to_double_near_54_9)
qed



section \<open>Basic facts\<close>

lemmas engine_ops = invoke_def on_def loadBlob_def getDuration_def getCurrentTime_def
  addRegion_def clearRegions_def play_def pause_def stop_def skipForward_def skipBackward_def
  skip_def region_play_def destroy_def engine_clock_def recreateRegion_def

lemmas handler_defs = onCropRegionUpdated_def onCropRegionUpdateEnd_def
  handleClickTogglePlay_def handleClickSkip_def handleClickJump_def handleClickCut_def
  handleClickCancel_def

lemmas session_defs = session_start_def engine_decoded_def componentDidMount_def
  constructor_def WaveSurfer_create_def onWaveSurferReady_def

text \<open>On finite numbers \<open>!==\<close> is plain inequality.\<close>

lemma strict_neq_finite: "strict_neq (Num a) (Num b) \<longleftrightarrow> Num a \<noteq> Num b"
  by simp

lemma step_keeps_handle: "waveSurfer (state (step ev w)) = waveSurfer (state w)"
  by (cases ev) (auto simp: handler_defs engine_ops Let_def split: option.splits prod.splits)

lemma step_keeps_originals:
  "originalCutStart (state (step ev w)) = originalCutStart (state w)"
  "originalCutEnd (state (step ev w)) = originalCutEnd (state w)"
  by (cases ev; auto simp: handler_defs engine_ops Let_def split: option.splits prod.splits)+

lemma step_keeps_params: "params (engine (step ev w)) = params (engine w)"
  by (cases ev) (auto simp: handler_defs engine_ops Let_def split: option.splits prod.splits)

lemma run_keeps_params: "params (engine (run evs w)) = params (engine w)"
  by (induction evs arbitrary: w) (simp_all add: step_keeps_params)

lemma session_start_params: "params (engine (session_start d)) = waveConfig"
  by (simp add: session_defs engine_ops Let_def split: prod.splits)

lemma ready_sets_handle: "waveSurfer (state (onWaveSurferReady ws w)) = Some ws"
  by (simp add: onWaveSurferReady_def engine_ops Let_def split: prod.splits)



section \<open>The collision guard of \<open>onCropRegionUpdated\<close>\<close>

text \<open>
  Claim C1. A region-updated event whose bounds are at most 0.25 seconds apart, received
  while the engine handle is present, clears all regions and adds one region at the
  committed \<open>cutStart\<close>/\<open>cutEnd\<close>, starts playback of that region exactly when
  \<open>isPlaying\<close> holds, and leaves the whole component state as it was (so the committed
  bounds, the original bounds and \<open>wasRegionChanged\<close> are unchanged). The handler
  never changes the component state, whatever the bounds: it commits no region at all,
  in particular none of width at most 0.25.
\<close>

theorem collision_guard_recreates_region:
  assumes "waveSurfer (state w) = Some ws" and "\<bar>a - b\<bar> \<le> 0.25"
  shows "(let w' = onCropRegionUpdated (Num a) (Num b) w;
             r = \<lparr> region_start = cutStart (state w), region_end = cutEnd (state w),
                   color = REGION_COLOR \<rparr>
         in state w' = state w
          \<and> regions (engine w') = [r]
          \<and> calls (engine w') =
              calls (engine w) @ [ClearRegions, AddRegion r]
                @ (if isPlaying (state w) then [RegionPlay r] else [])
          \<and> alerts w' = alerts w)
       \<and> (\<forall>start end' v. state (onCropRegionUpdated start end' v) = state v)"
  using assms(1) guard_collision [OF assms(2)]
  by (auto simp: onCropRegionUpdated_def engine_ops Let_def split: option.splits)

theorem collision_guard_recreates_region_witness:
  "waveSurfer (state (onCropRegionUpdateEnd (Num 20) (Num 25) (session_start (Num 60))))
     = Some EngineRef
   \<and> \<bar>30.1 - 30.2 :: real\<bar> \<le> 0.25
   \<and> state (onCropRegionUpdated (Num 30.1) (Num 30.2)
        (onCropRegionUpdateEnd (Num 20) (Num 25) (session_start (Num 60))))
     = state (onCropRegionUpdateEnd (Num 20) (Num 25) (session_start (Num 60)))
   \<and> cutStart (state (onCropRegionUpdated (Num 30.1) (Num 30.2)
        (onCropRegionUpdateEnd (Num 20) (Num 25) (session_start (Num 60))))) = Num 20
   \<and> cutEnd (state (onCropRegionUpdated (Num 30.1) (Num 30.2)
        (onCropRegionUpdateEnd (Num 20) (Num 25) (session_start (Num 60))))) = Num 25
   \<and> regions (engine (onCropRegionUpdated (Num 30.1) (Num 30.2)
        (onCropRegionUpdateEnd (Num 20) (Num 25) (session_start (Num 60)))))
     = [\<lparr> region_start = Num 20, region_end = Num 25, color = REGION_COLOR \<rparr>]
   \<and> last (calls (engine (onCropRegionUpdated (Num 30.1) (Num 30.2)
        (onCropRegionUpdateEnd (Num 20) (Num 25) (session_start (Num 60))))))
     = RegionPlay \<lparr> region_start = Num 20, region_end = Num 25, color = REGION_COLOR \<rparr>"
  using collision_guard_recreates_region
    [of "onCropRegionUpdateEnd (Num 20) (Num 25) (session_start (Num 60))" EngineRef "30.1" "30.2"]
  by (simp add: session_defs onCropRegionUpdateEnd_def engine_ops Let_def)


section \<open>Committing a drag: \<open>onCropRegionUpdateEnd\<close>\<close>

text \<open>
  Claim C2. A region-update-end event received while the engine handle is present sets
  \<open>cutEnd\<close> to the delivered end if that differs (\<open>!==\<close>) from the committed one, and
  independently \<open>cutStart\<close> to the delivered start if that differs; the playback anchor
  is the delivered start if the start edge moved, else the delivered end if the end
  edge moved, else 0; the engine is told to play from the anchor, \<open>isPlaying\<close> becomes
  true and \<open>wasRegionChanged\<close> becomes \<open>anchor !== 0\<close>. Nothing else changes.
\<close>

theorem update_end_commits_moved_edges:
  assumes "waveSurfer (state w) = Some ws"
  shows "state (onCropRegionUpdateEnd start end' w) =
           (state w)\<lparr> cutEnd := (if strict_neq end' (cutEnd (state w)) then end'
                                   else cutEnd (state w)),
                       cutStart := (if strict_neq start (cutStart (state w)) then start
                                     else cutStart (state w)),
                       isPlaying := True,
                       wasRegionChanged :=
                         strict_neq (resolved_anchor start end' (state w)) (Num 0) \<rparr>
       \<and> calls (engine (onCropRegionUpdateEnd start end' w)) =
           calls (engine w) @ [Play (Some (resolved_anchor start end' (state w)))]
       \<and> regions (engine (onCropRegionUpdateEnd start end' w)) = regions (engine w)
       \<and> alerts (onCropRegionUpdateEnd start end' w) = alerts w
       \<and> resolved_anchor start end' (state w) =
           (if strict_neq start (cutStart (state w)) then start
            else if strict_neq end' (cutEnd (state w)) then end'
            else Num 0)"
  using assms
  by (auto simp: onCropRegionUpdateEnd_def resolved_anchor_def engine_ops Let_def)

theorem update_end_commits_moved_edges_witness:
  "waveSurfer (state (session_start (Num 60))) = Some EngineRef
   \<and> cutStart (state (session_start (Num 60))) = Num 20
   \<and> cutEnd (state (session_start (Num 60))) = Num 40
   \<and> cutStart (state (onCropRegionUpdateEnd (Num 20) (Num 25) (session_start (Num 60)))) = Num 20
   \<and> cutEnd (state (onCropRegionUpdateEnd (Num 20) (Num 25) (session_start (Num 60)))) = Num 25
   \<and> isPlaying (state (onCropRegionUpdateEnd (Num 20) (Num 25) (session_start (Num 60))))
   \<and> wasRegionChanged (state (onCropRegionUpdateEnd (Num 20) (Num 25) (session_start (Num 60))))
   \<and> last (calls (engine (onCropRegionUpdateEnd (Num 20) (Num 25) (session_start (Num 60)))))
       = Play (Some (Num 25))"
  using update_end_commits_moved_edges [of "session_start (Num 60)" EngineRef "Num 20" "Num 25"]
  by (simp add: session_defs resolved_anchor_def engine_ops Let_def)


section \<open>The default region at readiness\<close>

text \<open>
  Claim C3. When the engine reports ready with duration \<open>d\<close>, the region created and
  the committed bounds are \<open>[20, d - 20]\<close> if \<open>d > 40\<close> and \<open>[0, d]\<close> otherwise, and
  the original bounds are set to the same values at that moment. No later event
  (drag or button) writes the original bounds again.
\<close>

theorem ready_default_region:
  assumes "duration (engine w) = Num d"
  shows "state (onWaveSurferReady ws w) =
           (state w)\<lparr> waveSurfer := Some ws,
                       cutStart := Num (if d > 40 then 20 else 0),
                       cutEnd := Num (if d > 40 then d - 20 else d),
                       originalCutStart := Num (if d > 40 then 20 else 0),
                       originalCutEnd := Num (if d > 40 then d - 20 else d) \<rparr>
       \<and> regions (engine (onWaveSurferReady ws w)) =
           regions (engine w) @
             [\<lparr> region_start = Num (if d > 40 then 20 else 0),
                region_end = Num (if d > 40 then d - 20 else d),
                color = REGION_COLOR \<rparr>]
       \<and> originalCutStart (state (onWaveSurferReady ws w)) = cutStart (state (onWaveSurferReady ws w))
       \<and> originalCutEnd (state (onWaveSurferReady ws w)) = cutEnd (state (onWaveSurferReady ws w))
       \<and> (\<forall>ev v. originalCutStart (state (step ev v)) = originalCutStart (state v)
                \<and> originalCutEnd (state (step ev v)) = originalCutEnd (state v))"
  using assms
  by (auto simp: onWaveSurferReady_def engine_ops Let_def step_keeps_originals)

theorem ready_default_region_witness:
  "duration (engine (engine_decoded (Num 60) componentDidMount)) = Num 60
   \<and> cutStart (state (onWaveSurferReady EngineRef (engine_decoded (Num 60) componentDidMount))) = Num 20
   \<and> cutEnd (state (onWaveSurferReady EngineRef (engine_decoded (Num 60) componentDidMount))) = Num 40
   \<and> originalCutStart (state (onWaveSurferReady EngineRef (engine_decoded (Num 60) componentDidMount))) = Num 20
   \<and> originalCutEnd (state (onWaveSurferReady EngineRef (engine_decoded (Num 60) componentDidMount))) = Num 40
   \<and> regions (engine (onWaveSurferReady EngineRef (engine_decoded (Num 60) componentDidMount))) =
       [\<lparr> region_start = Num 20, region_end = Num 40, color = REGION_COLOR \<rparr>]"
  using ready_default_region [of "engine_decoded (Num 60) componentDidMount" 60 EngineRef]
  by (simp add: session_defs engine_ops Let_def)


section \<open>The flag \<open>wasRegionChanged\<close> along a session\<close>







section \<open>Cancel\<close>

text \<open>
  Claim C5. In a ready state \<open>handleClickCancel\<close> sets \<open>cutStart\<close>/\<open>cutEnd\<close> to the
  original bounds, clears all regions and adds one at those bounds, stops the engine,
  and sets \<open>isPlaying\<close> and \<open>wasRegionChanged\<close> to false. Cancelling twice gives the
  same component state (and the same single region) as cancelling once.
\<close>

theorem cancel_restores_original:
  assumes "waveSurfer (state w) = Some ws"
  shows "state (handleClickCancel w) =
           (state w)\<lparr> isPlaying := False,
                       cutStart := originalCutStart (state w),
                       cutEnd := originalCutEnd (state w),
                       wasRegionChanged := False \<rparr>
       \<and> calls (engine (handleClickCancel w)) =
           calls (engine w) @
             [ClearRegions,
              AddRegion \<lparr> region_start = originalCutStart (state w),
                          region_end = originalCutEnd (state w), color = REGION_COLOR \<rparr>,
              Stop]
       \<and> regions (engine (handleClickCancel w)) =
           [\<lparr> region_start = originalCutStart (state w),
              region_end = originalCutEnd (state w), color = REGION_COLOR \<rparr>]
       \<and> state (handleClickCancel (handleClickCancel w)) = state (handleClickCancel w)
       \<and> regions (engine (handleClickCancel (handleClickCancel w))) =
           regions (engine (handleClickCancel w))"
  using assms
  by (auto simp: handleClickCancel_def engine_ops Let_def)

theorem cancel_restores_original_witness:
  "waveSurfer (state (onCropRegionUpdateEnd (Num 20) (Num 25) (session_start (Num 60))))
     = Some EngineRef
   \<and> cutEnd (state (onCropRegionUpdateEnd (Num 20) (Num 25) (session_start (Num 60)))) = Num 25
   \<and> wasRegionChanged (state (onCropRegionUpdateEnd (Num 20) (Num 25) (session_start (Num 60))))
   \<and> cutStart (state (handleClickCancel
        (onCropRegionUpdateEnd (Num 20) (Num 25) (session_start (Num 60))))) = Num 20
   \<and> cutEnd (state (handleClickCancel
        (onCropRegionUpdateEnd (Num 20) (Num 25) (session_start (Num 60))))) = Num 40
   \<and> \<not> isPlaying (state (handleClickCancel
        (onCropRegionUpdateEnd (Num 20) (Num 25) (session_start (Num 60)))))
   \<and> \<not> wasRegionChanged (state (handleClickCancel
        (onCropRegionUpdateEnd (Num 20) (Num 25) (session_start (Num 60)))))
   \<and> state (handleClickCancel (handleClickCancel
        (onCropRegionUpdateEnd (Num 20) (Num 25) (session_start (Num 60)))))
     = state (handleClickCancel
        (onCropRegionUpdateEnd (Num 20) (Num 25) (session_start (Num 60))))"
  using cancel_restores_original
    [of "onCropRegionUpdateEnd (Num 20) (Num 25) (session_start (Num 60))" EngineRef]
  by (simp add: session_defs onCropRegionUpdateEnd_def engine_ops Let_def)


section \<open>Operations before the engine is ready\<close>

text \<open>
  Claim C6, as the code has it. While the engine handle is absent, \<open>togglePlay\<close>,
  \<open>skip\<close>, \<open>jump\<close> and \<open>cancel\<close> change nothing at all: no state field, no engine call,
  no notice. \<open>cut\<close> has no guard: it too leaves the state and the engine alone, but it
  shows its notice.
\<close>

theorem not_ready_operations:
  assumes "waveSurfer (state w) = None"
  shows "handleClickTogglePlay w = w
       \<and> handleClickSkip forwards w = w
       \<and> handleClickJump toEnd w = w
       \<and> handleClickCancel w = w
       \<and> state (handleClickCut w) = state w
       \<and> engine (handleClickCut w) = engine w
       \<and> alerts (handleClickCut w) = alerts w @ [''Not yet implemented :('']"
  using assms
  by (simp add: handler_defs)

theorem not_ready_operations_witness:
  "waveSurfer (state componentDidMount) = None
   \<and> handleClickTogglePlay componentDidMount = componentDidMount
   \<and> handleClickSkip True componentDidMount = componentDidMount
   \<and> handleClickJump True componentDidMount = componentDidMount
   \<and> handleClickCancel componentDidMount = componentDidMount
   \<and> alerts (handleClickCut componentDidMount) = [''Not yet implemented :('']"
  using not_ready_operations [of componentDidMount True True]
  by (simp add: componentDidMount_def constructor_def Let_def)

text \<open>
  Right after mounting the handle is absent and no notice has been shown;
  \<open>handleClickCut\<close> shows one.
\<close>

theorem cut_before_ready_counterexample:
  "waveSurfer (state componentDidMount) = None
   \<and> alerts componentDidMount = []
   \<and> alerts (handleClickCut componentDidMount) = [''Not yet implemented :('']
   \<and> handleClickCut componentDidMount \<noteq> componentDidMount"
proof -
  have a: "alerts componentDidMount = []"
    by (simp add: componentDidMount_def Let_def)
  have b: "alerts (handleClickCut componentDidMount) = [''Not yet implemented :('']"
    by (simp add: handleClickCut_def a)
  have "handleClickCut componentDidMount \<noteq> componentDidMount"
    using a b by (metis list.distinct(1))
  moreover have "waveSurfer (state componentDidMount) = None"
    by (simp add: componentDidMount_def constructor_def Let_def)
  ultimately show ?thesis using a b by simp
qed


section \<open>Jumping to the end and to the start\<close>

text \<open>
  Claim C7. In a ready state \<open>handleClickJump true\<close> reads the duration \<open>d\<close> and the
  current time \<open>t\<close>, tells the engine to skip by \<open>d - t - 5\<close>, then to pause, then to
  skip forward once, and sets \<open>isPlaying\<close> to false whatever it was; no other state
  field changes. The forward skip's increment is the \<open>skipLength\<close> the engine was
  configured with, which is 5, in every state a session reaches.
\<close>

theorem jump_to_end:
  assumes "waveSurfer (state w) = Some ws"
    and "duration (engine w) = Num d" and "currentTime (engine w) = Num t"
    and "params (engine w) = waveConfig"
  shows "calls (engine (handleClickJump True w)) =
           calls (engine w)
             @ [GetDuration, GetCurrentTime,
                Skip (js_minus (js_minus (Num d) (Num t)) (Num 5)), Pause, SkipForward]
       \<and> (round_to_double (d - t) = Num (d - t)
            \<and> round_to_double (d - t - 5) = Num (d - t - 5)
          \<longrightarrow> js_minus (js_minus (Num d) (Num t)) (Num 5) = Num (d - t - 5))
       \<and> state (handleClickJump True w) = (state w)\<lparr> isPlaying := False \<rparr>
       \<and> skipLength (params (engine (handleClickJump True w))) = Num 5
       \<and> regions (engine (handleClickJump True w)) = regions (engine w)
       \<and> alerts (handleClickJump True w) = alerts w
       \<and> (\<forall>evs x. params (engine (run evs (session_start x))) = waveConfig)"
  using assms
  by (simp add: handleClickJump_def engine_ops Let_def waveConfig_def
        run_keeps_params session_start_params js_minus_finite)

text \<open>
  A 60 second track. At the current time 10 both differences are doubles and the offset
  is 45. At the current time \<open>3602879701896397 / 2 ^ 55\<close>, the double nearest to 0.1,
  the first difference is rounded and the offset is \<open>7726488110707507 / 2 ^ 47\<close>.
\<close>

theorem jump_to_end_witness:
  "waveSurfer (state (step (EngineClock (Num 10)) (session_start (Num 60)))) = Some EngineRef
   \<and> duration (engine (step (EngineClock (Num 10)) (session_start (Num 60)))) = Num 60
   \<and> currentTime (engine (step (EngineClock (Num 10)) (session_start (Num 60)))) = Num 10
   \<and> params (engine (step (EngineClock (Num 10)) (session_start (Num 60)))) = waveConfig
   \<and> round_to_double (60 - 10) = Num (60 - 10)
   \<and> round_to_double (60 - 10 - 5) = Num (60 - 10 - 5)
   \<and> calls (engine (handleClickJump True (step (EngineClock (Num 10)) (session_start (Num 60))))) =
       calls (engine (step (EngineClock (Num 10)) (session_start (Num 60))))
         @ [GetDuration, GetCurrentTime, Skip (Num 45), Pause, SkipForward]
   \<and> \<not> isPlaying (state (handleClickJump True
          (step (EngineClock (Num 10)) (session_start (Num 60)))))
   \<and> calls (engine (handleClickJump True
        (step (EngineClock (Num (3602879701896397 / 2 ^ 55))) (session_start (Num 60))))) =
       calls (engine
        (step (EngineClock (Num (3602879701896397 / 2 ^ 55))) (session_start (Num 60))))
         @ [GetDuration, GetCurrentTime, Skip (Num (7726488110707507 / 2 ^ 47)), Pause,
            SkipForward]"
proof -
  have ready: "waveSurfer (state (step (EngineClock c) (session_start (Num 60)))) = Some EngineRef"
    "duration (engine (step (EngineClock c) (session_start (Num 60)))) = Num 60"
    "currentTime (engine (step (EngineClock c) (session_start (Num 60)))) = c"
    "params (engine (step (EngineClock c) (session_start (Num 60)))) = waveConfig" for c
    by (simp_all add: session_defs engine_ops Let_def)
  have exact: "round_to_double (60 - 10) = Num (60 - 10)"
    "round_to_double (60 - 10 - 5) = Num (60 - 10 - 5)"
    using round_to_double_50 round_to_double_45 by simp_all
  note a = jump_to_end
    [where w = "step (EngineClock (Num 10)) (session_start (Num 60))"
       and ws = EngineRef and d = 60 and t = 10,
     OF ready(1) ready(2) ready(3) ready(4)]
  note b = jump_to_end
    [where w = "step (EngineClock (Num (3602879701896397 / 2 ^ 55))) (session_start (Num 60))"
       and ws = EngineRef and d = 60 and t = "3602879701896397 / 2 ^ 55",
     OF ready(1) ready(2) ready(3) ready(4)]
  from a have "calls (engine (handleClickJump True (step (EngineClock (Num 10)) (session_start (Num 60))))) =
       calls (engine (step (EngineClock (Num 10)) (session_start (Num 60))))
         @ [GetDuration, GetCurrentTime, Skip (Num 45), Pause, SkipForward]"
    and "\<not> isPlaying (state (handleClickJump True
          (step (EngineClock (Num 10)) (session_start (Num 60)))))"
    by (simp_all only: jump_offset_60_10) simp_all
  moreover from b have "calls (engine (handleClickJump True
        (step (EngineClock (Num (3602879701896397 / 2 ^ 55))) (session_start (Num 60))))) =
       calls (engine
        (step (EngineClock (Num (3602879701896397 / 2 ^ 55))) (session_start (Num 60))))
         @ [GetDuration, GetCurrentTime, Skip (Num (7726488110707507 / 2 ^ 47)), Pause,
            SkipForward]"
    by (simp only: jump_offset_60_near_0_1)
  ultimately show ?thesis
    using ready [of "Num 10"] exact by (simp only: simp_thms)
qed

text \<open>
  Claim C10. In a ready state \<open>handleClickJump false\<close> leaves every state field as it
  was, \<open>isPlaying\<close> included: it stops the engine and then asks it to play only when
  \<open>isPlaying\<close> was true.
\<close>

theorem jump_to_start:
  assumes "waveSurfer (state w) = Some ws"
  shows "state (handleClickJump False w) = state w
       \<and> calls (engine (handleClickJump False w)) =
           calls (engine w) @ [Stop] @ (if isPlaying (state w) then [Play None] else [])
       \<and> regions (engine (handleClickJump False w)) = regions (engine w)
       \<and> alerts (handleClickJump False w) = alerts w"
  using assms
  by (simp add: handleClickJump_def engine_ops Let_def)

theorem jump_to_start_witness:
  "waveSurfer (state (handleClickTogglePlay (session_start (Num 60)))) = Some EngineRef
   \<and> isPlaying (state (handleClickTogglePlay (session_start (Num 60))))
   \<and> state (handleClickJump False (handleClickTogglePlay (session_start (Num 60))))
       = state (handleClickTogglePlay (session_start (Num 60)))
   \<and> calls (engine (handleClickJump False (handleClickTogglePlay (session_start (Num 60))))) =
       calls (engine (handleClickTogglePlay (session_start (Num 60)))) @ [Stop, Play None]"
  using jump_to_start [of "handleClickTogglePlay (session_start (Num 60))" EngineRef]
  by (simp add: session_defs handleClickTogglePlay_def engine_ops Let_def)


section \<open>Cut\<close>

text \<open>
  Claim C9. \<open>handleClickCut\<close>, in any state, shows the notice "Not yet implemented :("
  and changes neither the component state (\<open>isPlaying\<close>, the four bounds,
  \<open>wasRegionChanged\<close>, the engine handle) nor the engine. It has no failing branch and
  it never returns without the notice.
\<close>

theorem cut_not_implemented:
  "handleClickCut w = w\<lparr> alerts := alerts w @ [''Not yet implemented :(''] \<rparr>
   \<and> state (handleClickCut w) = state w
   \<and> engine (handleClickCut w) = engine w
   \<and> alerts (handleClickCut w) \<noteq> alerts w
   \<and> last (alerts (handleClickCut w)) = ''Not yet implemented :(''"
  by (simp add: handleClickCut_def)


section \<open>One region\<close>

lemma step_one_region:
  "waveSurfer (state w) = Some ws \<Longrightarrow> length (regions (engine w)) = 1 \<Longrightarrow>
   length (regions (engine (step ev w))) = 1"
  by (cases ev) (auto simp: handler_defs engine_ops Let_def split: option.splits prod.splits)

lemma run_one_region:
  "waveSurfer (state w) = Some ws \<Longrightarrow> length (regions (engine w)) = 1 \<Longrightarrow>
   length (regions (engine (run evs w))) = 1"
proof (induction evs arbitrary: w)
  case Nil
  then show ?case by simp
next
  case (Cons ev evs)
  then show ?case
    by (simp add: step_keeps_handle step_one_region)
qed

text \<open>
  Claim C8, as the code has it. When the ready handler runs on an engine that holds no
  region (as the freshly created one does), the engine holds exactly one region in
  every state reached afterwards by drag events and transport operations. The ready
  handler adds that region without clearing; every later path that recreates a region
  (the collision guard and cancel) goes through \<open>recreateRegion\<close>, which clears all
  regions and then adds one.
\<close>

theorem single_region:
  assumes "regions (engine w) = []"
  shows "length (regions (engine (run evs (onWaveSurferReady ws w)))) = 1
       \<and> (\<forall>e a b. regions (snd (recreateRegion e a b)) =
                     [\<lparr> region_start = a, region_end = b, color = REGION_COLOR \<rparr>]
                  \<and> calls (snd (recreateRegion e a b)) =
                     calls e @ [ClearRegions,
                                AddRegion \<lparr> region_start = a, region_end = b,
                                            color = REGION_COLOR \<rparr>])"
proof -
  have "length (regions (engine (onWaveSurferReady ws w))) = 1"
    using assms by (simp add: onWaveSurferReady_def engine_ops Let_def split: prod.splits)
  then have "length (regions (engine (run evs (onWaveSurferReady ws w)))) = 1"
    using ready_sets_handle run_one_region by blast
  then show ?thesis
    by (simp add: engine_ops Let_def)
qed

theorem single_region_witness:
  "regions (engine (engine_decoded (Num 60) componentDidMount)) = []
   \<and> length (regions (engine (run [RegionUpdated (Num 30.1) (Num 30.2), ClickCancel]
        (onWaveSurferReady EngineRef (engine_decoded (Num 60) componentDidMount))))) = 1"
  using single_region [of "engine_decoded (Num 60) componentDidMount"
      "[RegionUpdated (Num 30.1) (Num 30.2), ClickCancel]" EngineRef]
  by (simp add: session_defs engine_ops Let_def)

text \<open>
  The calls the engine has received when a 60 second track has become ready: the region
  is added with no \<open>clearRegions\<close> before it. Run on an engine that already holds a
  region, the ready handler leaves two.
\<close>

theorem ready_clears_first_counterexample:
  "calls (engine (session_start (Num 60))) =
     [On EvReady, LoadBlob, On EvRegionCreated, On EvRegionUpdated, On EvRegionUpdateEnd,
      GetDuration,
      AddRegion \<lparr> region_start = Num 20, region_end = Num 40, color = REGION_COLOR \<rparr>]
   \<and> ClearRegions \<notin> set (calls (engine (session_start (Num 60))))
   \<and> length (regions (engine (onWaveSurferReady EngineRef (session_start (Num 60))))) = 2"
  by (simp add: session_defs engine_ops Let_def)

end

